theory Spec2Isabelle
  imports Complex_Main "HOL-Library.AList"
begin

section \<open>O3 time tracker: sessions, activity classification and aggregates\<close>

text \<open>
  A shallow embedding of the tracker (class \<open>TimeTracker\<close>), the activity monitor
  (class \<open>ActivityMonitor\<close>) and the storage manager (class \<open>FileStorageManager\<close>).

  Conventions of the model.
  \<^item> A \<open>Date\<close> is its \<open>getTime()\<close> value: an \<open>int\<close> of milliseconds since the epoch.
  \<^item> Sessions are mutable objects shared between \<open>trackingData.currentSession\<close> and the
    \<open>sessions\<close> array of a project. They live in an explicit store \<open>heap\<close> (a list; an
    address is an index), the arrays and the current-session slot hold addresses.
  \<^item> \<open>Map<string, ProjectStats>\<close> is an association list in insertion order; \<open>Map.set\<close> is
    \<open>AList.update\<close> (replace in place, or append).
  \<^item> Every callback reads the clock once: all \<open>new Date()\<close> and \<open>Date.now()\<close> calls made
    while one callback runs return the field \<open>now\<close> of the environment of that callback.
    Callbacks run to completion one after the other; \<open>storage.save\<close> succeeds. Within one
    callback of the monitor the handlers of its events are called and not awaited: what a
    handler does after its \<open>await\<close> of \<open>storage.save\<close> runs after the monitor's callback
    has returned.
  \<^item> Local calendar days are numbered: the local day of \<open>t\<close> is \<open>(t + tz) div 86400000\<close>
    for the offset \<open>tz\<close> of local time from UTC (no change of offset within a run). Two
    \<open>toLocaleDateString\<close> strings are equal exactly when the day numbers are.
\<close>

subsection \<open>Data model (types.ts)\<close>

record TimeSession =
  sessionId :: string
  projectName :: string
  projectPath :: string
  startTime :: int
  endTime :: "int option"
  totalTime :: int
  isActive :: bool
  lastActivity :: int
  lastActiveTime :: int
  textChanges :: int
  cursorMovements :: int

text \<open>
  \<open>ProjectStats\<close>; the parameter is what the \<open>sessions\<close> array holds: addresses in memory,
  session values in the JSON file. The quotient \<open>averageSessionDuration\<close> is kept exact.
\<close>

record 's ProjectStats =
  projectName_p :: string
  projectPath_p :: string
  totalTime_p :: int
  sessions :: "'s list"
  lastActivity_p :: int
  firstSession :: int
  averageSessionDuration :: rat
  activeDays :: nat

record ExtensionConfig =
  idleThreshold :: int
  autoStart :: bool
  showInStatusBar :: bool
  saveInterval :: int
  trackBackground :: bool
  autoEndSessionAfterIdle :: bool
  autoEndIdleThreshold :: int
  autoEndSessionOnProjectChange :: bool

datatype ActivityState = ACTIVE_FOREGROUND | ACTIVE_BACKGROUND | IDLE_FOREGROUND | INACTIVE

datatype EventType = text_change | cursor_change | window_focus | window_blur | sleep | wake

record ActivityEvent =
  eventType :: EventType
  timestamp :: int

subsection \<open>Activity monitor: the idle/focus classifier\<close>

record ActivityMonitor =
  lastActivity_m :: int
  isWindowFocused :: bool
  lastHeartbeat :: int

definition HEARTBEAT_INTERVAL :: int where
  "HEARTBEAT_INTERVAL = 10000"

definition SLEEP_THRESHOLD :: int where
  "SLEEP_THRESHOLD = 30000"

definition getCurrentState :: "ExtensionConfig \<Rightarrow> ActivityMonitor \<Rightarrow> int \<Rightarrow> ActivityState" where
  "getCurrentState cfg m nw =
     (let idleThresholdMs = idleThreshold cfg * 60 * 1000;
          timeSinceLastActivity = nw - lastActivity_m m;
          timeSinceLastHeartbeat = nw - lastHeartbeat m;
          hasSleepGap = (timeSinceLastHeartbeat > SLEEP_THRESHOLD);
          isIdle = (timeSinceLastActivity > idleThresholdMs \<or> hasSleepGap)
      in if isWindowFocused m
         then (if isIdle then IDLE_FOREGROUND else ACTIVE_FOREGROUND)
         else (if trackBackground cfg \<and> \<not> isIdle \<and> \<not> hasSleepGap
               then ACTIVE_BACKGROUND else INACTIVE))"

definition monitorIsActive :: "ExtensionConfig \<Rightarrow> ActivityMonitor \<Rightarrow> int \<Rightarrow> bool" where
  "monitorIsActive cfg m nw =
     (let state = getCurrentState cfg m nw
      in state = ACTIVE_FOREGROUND \<or> state = ACTIVE_BACKGROUND)"

text \<open>
  The reference classifier, written from the specification (section 4.1): the inputs are
  the clock, the two timestamps, the focus flag and the two configuration values.
\<close>

definition classifier_spec :: "int \<Rightarrow> int \<Rightarrow> int \<Rightarrow> bool \<Rightarrow> int \<Rightarrow> bool \<Rightarrow> ActivityState" where
  "classifier_spec nw lastAct lastBeat focused idleMinutes trackBg =
     (let sleepDetected = (nw - lastBeat > 30000);
          isIdle = (nw - lastAct > idleMinutes * 60000 \<or> sleepDetected)
      in if focused \<and> \<not> isIdle then ACTIVE_FOREGROUND
         else if focused \<and> isIdle then IDLE_FOREGROUND
         else if \<not> focused \<and> trackBg \<and> \<not> isIdle \<and> \<not> sleepDetected then ACTIVE_BACKGROUND
         else INACTIVE)"

subsection \<open>Calendar days and the missing time helper\<close>

text \<open>
  \<open>toLocaleDateString('de-DE')\<close> as the number of the local day, \<open>formatDate\<close>
  (\<open>toISOString().split('T')[0]\<close>, the UTC date) as the number of the UTC day, and
  \<open>setHours(0, 0, 0, 0)\<close> as the first millisecond of the local day.
\<close>

definition localDay :: "int \<Rightarrow> int \<Rightarrow> int" where
  "localDay tz t = (t + tz) div 86400000"

definition formatDate :: "int \<Rightarrow> int" where
  "formatDate t = t div 86400000"

definition startOfLocalDay :: "int \<Rightarrow> int \<Rightarrow> int" where
  "startOfLocalDay tz t = localDay tz t * 86400000 - tz"

text \<open>
  Modelled from the spec: \<open>safeTimeDifference\<close> is imported from \<open>timeUtils\<close> and called
  by \<open>tick\<close> and \<open>endCurrentSession\<close>, but no source file defines it. The specification
  says that accumulation deltas are clamped to non-negative; it says nothing about the
  third argument (a number of minutes). Every function below that calls the helper takes
  it as the parameter \<open>sd\<close>, and the general theorems hold for every \<open>sd\<close>; this clamp
  is used only where a run is evaluated on concrete input.
\<close>

definition safeTimeDifference :: "int \<Rightarrow> int \<Rightarrow> int \<Rightarrow> int" where
  "safeTimeDifference later earlier maxMinutes = max 0 (later - earlier)"

subsection \<open>Tracker state and the environment of a callback\<close>

record TrackingData =
  heap :: "TimeSession list"
  projects :: "(string \<times> nat ProjectStats) list"
  currentSession :: "nat option"
  lastActivity_d :: int
  totalTimeTracked :: int
  version :: string
  lastSaved :: int
  workspacePath :: "string option"
  workspaceName :: "string option"

record Tracker = TrackingData +
  config :: ExtensionConfig
  monitor :: ActivityMonitor
  isRunning :: bool
  isPaused :: bool
  lastSessionDay :: "int option"

text \<open>
  What a callback reads from outside: the clock, the offset of local time, the first
  workspace folder (name and \<open>uri.fsPath\<close>), the path of the active editor's document
  when its scheme is \<open>file\<close>, and the session identifiers that \<open>generateSessionId\<close>
  draws from the clock and \<open>Math.random\<close> (one per allocated session object).
\<close>

record Env =
  now :: int
  tzOffset :: int
  workspaceFolder :: "(string \<times> string) option"
  activeFile :: "string option"
  randomId :: "nat \<Rightarrow> string"

definition isSeparator :: "char \<Rightarrow> bool" where
  "isSeparator c = (c = CHR ''/'' \<or> c = CHR 0x5C)"

definition fileNameOf :: "string \<Rightarrow> string" where
  "fileNameOf filePath =
     (let lastPart = rev (takeWhile (\<lambda>c. \<not> isSeparator c) (rev filePath))
      in if lastPart = [] then ''Unknown'' else lastPart)"

definition getCurrentProject :: "Env \<Rightarrow> (string \<times> string) option" where
  "getCurrentProject env =
     (case workspaceFolder env of
        Some folder \<Rightarrow> Some folder
      | None \<Rightarrow>
          (case activeFile env of
             Some filePath \<Rightarrow> Some (fileNameOf filePath, filePath)
           | None \<Rightarrow> None))"

definition generateSessionId :: "Env \<Rightarrow> Tracker \<Rightarrow> string" where
  "generateSessionId env s = randomId env (length (heap s))"

subsection \<open>Project aggregates\<close>

definition recalculateProjectStats :: "TimeSession list \<Rightarrow> nat ProjectStats \<Rightarrow> nat ProjectStats" where
  "recalculateProjectStats h projectStats =
     (let completed = filter (\<lambda>a. endTime (h ! a) \<noteq> None) (sessions projectStats);
          total = foldl (\<lambda>total a. total + totalTime (h ! a)) 0 completed;
          average = (if length completed > 0 then of_int total / of_nat (length completed) else 0);
          uniqueDays = remdups (map (\<lambda>a. formatDate (startTime (h ! a))) completed);
          p1 = projectStats\<lparr>totalTime_p := total, averageSessionDuration := average,
                 activeDays := length uniqueDays\<rparr>
      in case sort_key (\<lambda>a. - lastActivity (h ! a)) completed of
           [] \<Rightarrow> p1
         | lastSession # _ \<Rightarrow> p1\<lparr>lastActivity_p := lastActivity (h ! lastSession)\<rparr>)"

definition addSessionToProject :: "nat \<Rightarrow> Tracker \<Rightarrow> Tracker" where
  "addSessionToProject a s =
     (let session = heap s ! a;
          projectStats =
            (case map_of (projects s) (projectPath session) of
               Some ps \<Rightarrow> ps
             | None \<Rightarrow>
                 \<lparr>projectName_p = projectName session, projectPath_p = projectPath session,
                  totalTime_p = 0, sessions = [], lastActivity_p = startTime session,
                  firstSession = startTime session, averageSessionDuration = 0,
                  activeDays = 1\<rparr>);
          pushed = projectStats\<lparr>sessions := sessions projectStats @ [a]\<rparr>
      in s\<lparr>projects := AList.update (projectPath session)
                          (recalculateProjectStats (heap s) pushed) (projects s)\<rparr>)"

definition recalculateProject :: "string \<Rightarrow> Tracker \<Rightarrow> Tracker" where
  "recalculateProject path s =
     (case map_of (projects s) path of
        Some projectStats \<Rightarrow>
          s\<lparr>projects := AList.update path (recalculateProjectStats (heap s) projectStats)
                          (projects s)\<rparr>
      | None \<Rightarrow> s)"

subsection \<open>Starting, resuming and ending sessions\<close>

definition findRecentSession :: "string \<Rightarrow> Tracker \<Rightarrow> nat option" where
  "findRecentSession path s =
     (case map_of (projects s) path of
        None \<Rightarrow> None
      | Some projectStats \<Rightarrow>
          (case sort_key (\<lambda>a. - lastActivity (heap s ! a))
                  (filter (\<lambda>a. endTime (heap s ! a) = None) (sessions projectStats)) of
             [] \<Rightarrow> None
           | a # _ \<Rightarrow> Some a))"

definition shouldResumeSession :: "Env \<Rightarrow> TimeSession \<Rightarrow> bool" where
  "shouldResumeSession env session =
     (let timeSinceLastActivity = now env - lastActivity session;
          resumeThreshold = 30 * 60 * 1000
      in timeSinceLastActivity < resumeThreshold)"

definition newSession :: "Env \<Rightarrow> Tracker \<Rightarrow> string \<Rightarrow> string \<Rightarrow> TimeSession" where
  "newSession env s name path =
     \<lparr>sessionId = generateSessionId env s, projectName = name, projectPath = path,
      startTime = now env, endTime = None, totalTime = 0, isActive = True,
      lastActivity = now env, lastActiveTime = now env, textChanges = 0,
      cursorMovements = 0\<rparr>"

definition trackSessionDay :: "Env \<Rightarrow> Tracker \<Rightarrow> Tracker" where
  "trackSessionDay env s =
     (case currentSession s of
        Some a \<Rightarrow> s\<lparr>lastSessionDay := Some (localDay (tzOffset env) (startTime (heap s ! a)))\<rparr>
      | None \<Rightarrow> s)"

definition resumeExisting :: "Env \<Rightarrow> nat \<Rightarrow> Tracker \<Rightarrow> Tracker" where
  "resumeExisting env a s =
     s\<lparr>heap := (heap s)[a := (heap s ! a)\<lparr>isActive := True, lastActivity := now env,
                                         lastActiveTime := now env\<rparr>],
       currentSession := Some a\<rparr>"

definition startNew :: "Env \<Rightarrow> string \<Rightarrow> string \<Rightarrow> Tracker \<Rightarrow> Tracker" where
  "startNew env name path s =
     (let a = length (heap s)
      in addSessionToProject a
           (s\<lparr>heap := heap s @ [newSession env s name path], currentSession := Some a\<rparr>))"

definition startOrResumeSession :: "Env \<Rightarrow> Tracker \<Rightarrow> Tracker" where
  "startOrResumeSession env s =
     (case getCurrentProject env of
        None \<Rightarrow> s
      | Some (name, path) \<Rightarrow>
          trackSessionDay env
            (case findRecentSession path s of
               Some existing \<Rightarrow>
                 if shouldResumeSession env (heap s ! existing)
                 then resumeExisting env existing s
                 else startNew env name path s
             | None \<Rightarrow> startNew env name path s))"

text \<open>\<open>storage.save\<close>: the only change to the tracking data is the save timestamp.\<close>

definition save :: "Env \<Rightarrow> Tracker \<Rightarrow> Tracker" where
  "save env s = s\<lparr>lastSaved := now env\<rparr>"

text \<open>
  \<open>endCurrentSession\<close> in two parts. \<open>endCurrentSessionBegin\<close> is what runs up to the
  \<open>await\<close> of \<open>storage.save\<close>: the session is ended, credited, its project recomputed
  and the current-session slot deleted. \<open>endCurrentSessionFinish\<close> is what runs once the
  save has completed: \<open>save\<close> has stamped \<open>lastSaved\<close> (after its own first \<open>await\<close>)
  and \<open>lastSessionDay\<close> is reset. A caller that awaits \<open>endCurrentSession\<close> sees both
  parts one after the other.
\<close>

definition endCurrentSessionBegin ::
  "(int \<Rightarrow> int \<Rightarrow> int \<Rightarrow> int) \<Rightarrow> Env \<Rightarrow> int option \<Rightarrow> Tracker \<Rightarrow> Tracker" where
  "endCurrentSessionBegin sd env endTimeArg s =
     (case currentSession s of
        None \<Rightarrow> s
      | Some a \<Rightarrow>
          (let session = heap s ! a;
               finalEndTime =
                 (case endTimeArg of
                    Some t \<Rightarrow> t
                  | None \<Rightarrow> (case endTime session of Some t \<Rightarrow> t | None \<Rightarrow> now env));
               ended = session\<lparr>endTime := Some finalEndTime, isActive := False\<rparr>;
               remainingActiveTime =
                 sd finalEndTime (lastActiveTime ended) (idleThreshold (config s));
               credited =
                 (if monitorIsActive (config s) (monitor s) (now env) \<and> remainingActiveTime > 0
                  then ended\<lparr>totalTime := totalTime ended + remainingActiveTime\<rparr>
                  else ended);
               s1 = recalculateProject (projectPath session) (s\<lparr>heap := (heap s)[a := credited]\<rparr>)
           in s1\<lparr>currentSession := None\<rparr>))"

definition endCurrentSessionFinish :: "Env \<Rightarrow> Tracker \<Rightarrow> Tracker" where
  "endCurrentSessionFinish env s = (save env s)\<lparr>lastSessionDay := None\<rparr>"

definition endCurrentSession ::
  "(int \<Rightarrow> int \<Rightarrow> int \<Rightarrow> int) \<Rightarrow> Env \<Rightarrow> int option \<Rightarrow> Tracker \<Rightarrow> Tracker" where
  "endCurrentSession sd env endTimeArg s =
     (case currentSession s of
        None \<Rightarrow> s
      | Some a \<Rightarrow> endCurrentSessionFinish env (endCurrentSessionBegin sd env endTimeArg s))"

subsection \<open>Midnight split, idle end and project change\<close>

definition splitSessionAtMidnight :: "Env \<Rightarrow> Tracker \<Rightarrow> Tracker" where
  "splitSessionAtMidnight env s =
     (case currentSession s of
        None \<Rightarrow> s
      | Some a \<Rightarrow>
          (let session = heap s ! a;
               endOfYesterday = startOfLocalDay (tzOffset env) (now env) - 1;
               ended = session\<lparr>endTime := Some endOfYesterday, isActive := False\<rparr>;
               credited =
                 (if monitorIsActive (config s) (monitor s) (now env)
                     \<and> lastActiveTime ended < endOfYesterday
                  then ended\<lparr>totalTime := totalTime ended + (endOfYesterday - lastActiveTime ended)\<rparr>
                  else ended);
               s1 = recalculateProject (projectPath session) (s\<lparr>heap := (heap s)[a := credited]\<rparr>);
               s2 = startNew env (projectName session) (projectPath session)
                      (s1\<lparr>currentSession := None\<rparr>)
           in save env s2))"

definition checkAndHandleMidnightCrossing :: "Env \<Rightarrow> Tracker \<Rightarrow> Tracker" where
  "checkAndHandleMidnightCrossing env s =
     (case currentSession s of
        None \<Rightarrow> s
      | Some a \<Rightarrow>
          (let currentDay = localDay (tzOffset env) (now env)
           in case lastSessionDay s of
                None \<Rightarrow> s
              | Some day \<Rightarrow>
                  if day \<noteq> currentDay
                  then (splitSessionAtMidnight env s)\<lparr>lastSessionDay := Some currentDay\<rparr>
                  else s))"

definition checkAndHandleIdleSessionEnd ::
  "(int \<Rightarrow> int \<Rightarrow> int \<Rightarrow> int) \<Rightarrow> Env \<Rightarrow> Tracker \<Rightarrow> Tracker" where
  "checkAndHandleIdleSessionEnd sd env s =
     (case currentSession s of
        None \<Rightarrow> s
      | Some a \<Rightarrow>
          (let idleThresholdMs = autoEndIdleThreshold (config s) * 60 * 1000;
               timeSinceLastActivity = now env - lastActiveTime (heap s ! a)
           in if timeSinceLastActivity > idleThresholdMs
              then endCurrentSession sd env None s
              else s))"

definition checkAndHandleProjectChange ::
  "(int \<Rightarrow> int \<Rightarrow> int \<Rightarrow> int) \<Rightarrow> Env \<Rightarrow> Tracker \<Rightarrow> Tracker" where
  "checkAndHandleProjectChange sd env s =
     (case currentSession s of
        None \<Rightarrow> s
      | Some a \<Rightarrow>
          (case getCurrentProject env of
             None \<Rightarrow> endCurrentSession sd env None s
           | Some (name, path) \<Rightarrow>
               if projectPath (heap s ! a) \<noteq> path
               then startOrResumeSession env (endCurrentSession sd env None s)
               else s))"

subsection \<open>The one-second tick\<close>

definition accumulateActiveTime ::
  "(int \<Rightarrow> int \<Rightarrow> int \<Rightarrow> int) \<Rightarrow> Env \<Rightarrow> Tracker \<Rightarrow> Tracker" where
  "accumulateActiveTime sd env s =
     (case currentSession s of
        None \<Rightarrow> s
      | Some a \<Rightarrow>
          if isPaused s then s
          else if monitorIsActive (config s) (monitor s) (now env)
          then (let session = heap s ! a;
                    timeSinceLastActive = sd (now env) (lastActiveTime session) 1;
                    added = (if timeSinceLastActive > 0
                             then session\<lparr>totalTime := totalTime session + timeSinceLastActive\<rparr>
                             else session)
                in s\<lparr>heap := (heap s)[a := added\<lparr>lastActiveTime := now env,
                                                  lastActivity := now env\<rparr>],
                     lastActivity_d := now env\<rparr>)
          else s)"

definition tick :: "(int \<Rightarrow> int \<Rightarrow> int \<Rightarrow> int) \<Rightarrow> Env \<Rightarrow> Tracker \<Rightarrow> Tracker" where
  "tick sd env s =
     (let s1 = (if currentSession s \<noteq> None \<and> \<not> isPaused s
                then checkAndHandleMidnightCrossing env s else s);
          s2 = (if autoEndSessionOnProjectChange (config s1) \<and> currentSession s1 \<noteq> None
                   \<and> \<not> isPaused s1
                then checkAndHandleProjectChange sd env s1 else s1);
          s3 = (if autoEndSessionAfterIdle (config s2) \<and> currentSession s2 \<noteq> None
                   \<and> \<not> isPaused s2
                then checkAndHandleIdleSessionEnd sd env s2 else s2);
          s4 = accumulateActiveTime sd env s3
      in if autoStart (config s4) \<and> currentSession s4 = None \<and> \<not> isPaused s4
            \<and> monitorIsActive (config s4) (monitor s4) (now env)
         then startOrResumeSession env s4
         else s4)"

subsection \<open>Activity events\<close>

text \<open>
  The monitor calls \<open>onActivity\<close> without awaiting it, so \<open>onActivity\<close> is the handler up
  to the point where it gives control back to the monitor. Only the sleep branch gives
  control back before its end: it stops in \<open>endCurrentSession\<close> at the \<open>await\<close> of
  \<open>storage.save\<close> (\<open>onActivityPending\<close> says when), and \<open>endCurrentSessionFinish\<close> is what
  is left to run. \<open>startOrResumeSession\<close> awaits nothing, so the other branches are whole.
\<close>

definition onActivity ::
  "(int \<Rightarrow> int \<Rightarrow> int \<Rightarrow> int) \<Rightarrow> Env \<Rightarrow> ActivityEvent \<Rightarrow> Tracker \<Rightarrow> Tracker" where
  "onActivity sd env event s =
     (if \<not> isRunning s then s
      else if eventType event = sleep then
        (case currentSession s of
           None \<Rightarrow> s
         | Some a \<Rightarrow>
             if isPaused s then s
             else if autoEndSessionAfterIdle (config s)
             then endCurrentSessionBegin sd env (Some (timestamp event)) s
             else s\<lparr>heap := (heap s)[a := (heap s ! a)\<lparr>isActive := False,
                                            lastActivity := timestamp event\<rparr>],
                    isPaused := True\<rparr>)
      else if eventType event = wake then
        (case currentSession s of
           Some a \<Rightarrow>
             if isPaused s
             then s\<lparr>heap := (heap s)[a := (heap s ! a)\<lparr>isActive := True,
                                            lastActivity := timestamp event,
                                            lastActiveTime := timestamp event\<rparr>],
                    isPaused := False\<rparr>
             else s
         | None \<Rightarrow> if autoStart (config s) then startOrResumeSession env s else s)
      else if isPaused s then s
      else
        (case currentSession s of
           Some a \<Rightarrow>
             (let session = heap s ! a;
                  counted =
                    (if eventType event = text_change
                     then session\<lparr>textChanges := textChanges session + 1\<rparr>
                     else if eventType event = cursor_change
                     then session\<lparr>cursorMovements := cursorMovements session + 1\<rparr>
                     else session)
              in s\<lparr>heap := (heap s)[a := counted\<lparr>lastActiveTime := now env,
                                                  lastActivity := now env\<rparr>]\<rparr>)
         | None \<Rightarrow> if autoStart (config s) then startOrResumeSession env s else s))"

definition onActivityPending :: "ActivityEvent \<Rightarrow> Tracker \<Rightarrow> bool" where
  "onActivityPending event s =
     (isRunning s \<and> eventType event = sleep \<and> currentSession s \<noteq> None \<and> \<not> isPaused s
      \<and> autoEndSessionAfterIdle (config s))"

text \<open>
  \<open>ActivityMonitor.recordActivity\<close>: the monitor stores the time stamp of the event, then
  calls the tracker's callback.
\<close>

definition recordActivity ::
  "(int \<Rightarrow> int \<Rightarrow> int \<Rightarrow> int) \<Rightarrow> Env \<Rightarrow> ActivityEvent \<Rightarrow> Tracker \<Rightarrow> Tracker" where
  "recordActivity sd env event s =
     onActivity sd env event (s\<lparr>monitor := (monitor s)\<lparr>lastActivity_m := timestamp event\<rparr>\<rparr>)"

text \<open>The events that one run of the heartbeat check synthesizes, in order.\<close>

definition sleepWakeEvents :: "ActivityMonitor \<Rightarrow> int \<Rightarrow> ActivityEvent list" where
  "sleepWakeEvents m nw =
     (let timeSinceLastHeartbeat = nw - lastHeartbeat m
      in if timeSinceLastHeartbeat > SLEEP_THRESHOLD
         then [\<lparr>eventType = sleep, timestamp = lastHeartbeat m + HEARTBEAT_INTERVAL\<rparr>,
               \<lparr>eventType = wake, timestamp = nw\<rparr>]
         else [])"

text \<open>
  The events are recorded one after the other within one run of the heartbeat check; the
  result is the state and the number of handlers that are waiting for their save.
\<close>

fun recordActivities ::
  "(int \<Rightarrow> int \<Rightarrow> int \<Rightarrow> int) \<Rightarrow> Env \<Rightarrow> ActivityEvent list \<Rightarrow> Tracker \<Rightarrow> Tracker \<times> nat" where
  "recordActivities sd env [] s = (s, 0)"
| "recordActivities sd env (event # events) s =
     (let pending = (if onActivityPending event s then 1 else 0);
          (s', n) = recordActivities sd env events (recordActivity sd env event s)
      in (s', pending + n))"

fun completeSaves :: "Env \<Rightarrow> nat \<Rightarrow> Tracker \<Rightarrow> Tracker" where
  "completeSaves env 0 s = s"
| "completeSaves env (Suc n) s = completeSaves env n (endCurrentSessionFinish env s)"

text \<open>
  \<open>checkSleepWake\<close>: the handlers waiting for their save go on only after the check has
  returned, that is after the wake handler and after the heartbeat has been stamped.
\<close>

definition checkSleepWake :: "(int \<Rightarrow> int \<Rightarrow> int \<Rightarrow> int) \<Rightarrow> Env \<Rightarrow> Tracker \<Rightarrow> Tracker" where
  "checkSleepWake sd env s =
     (let (s1, n) = recordActivities sd env (sleepWakeEvents (monitor s) (now env)) s;
          s2 = s1\<lparr>monitor := (monitor s1)\<lparr>lastHeartbeat := now env\<rparr>\<rparr>
      in completeSaves env n s2)"

definition onWindowStateChangeEnhanced ::
  "(int \<Rightarrow> int \<Rightarrow> int \<Rightarrow> int) \<Rightarrow> Env \<Rightarrow> bool \<Rightarrow> Tracker \<Rightarrow> Tracker" where
  "onWindowStateChangeEnhanced sd env focused s =
     (let wasFocused = isWindowFocused (monitor s);
          s0 = s\<lparr>monitor := (monitor s)\<lparr>isWindowFocused := focused\<rparr>\<rparr>
      in if wasFocused \<noteq> focused
         then (let timeSinceLastActivity = now env - lastActivity_m (monitor s0);
                   timeSinceLastHeartbeat = now env - lastHeartbeat (monitor s0);
                   s1 = (if focused \<and> \<not> wasFocused
                            \<and> (timeSinceLastActivity > SLEEP_THRESHOLD
                                \<or> timeSinceLastHeartbeat > SLEEP_THRESHOLD)
                         then recordActivity sd env \<lparr>eventType = wake, timestamp = now env\<rparr> s0
                         else s0)
               in recordActivity sd env
                    \<lparr>eventType = (if focused then window_focus else window_blur),
                     timestamp = now env\<rparr> s1)
         else s0)"

subsection \<open>Storage: the JSON file, load and export\<close>

text \<open>
  The JSON file holds sessions by value, once in each project's array and once more as
  \<open>currentSession\<close>. A file is absent (\<open>None\<close>), or reading, parsing or converting it
  throws (\<open>Unreadable\<close>), or it yields the stored data.
\<close>

record StoredData =
  projects_f :: "(string \<times> TimeSession ProjectStats) list"
  currentSession_f :: "TimeSession option"
  lastActivity_f :: int
  totalTimeTracked_f :: int
  version_f :: string
  lastSaved_f :: int
  workspacePath_f :: "string option"
  workspaceName_f :: "string option"

datatype FileContent = Unreadable | Parsed StoredData

definition DATA_VERSION :: string where
  "DATA_VERSION = ''1.0.0''"

definition createDefaultData :: "Env \<Rightarrow> TrackingData" where
  "createDefaultData env =
     \<lparr>heap = [], projects = [], currentSession = None, lastActivity_d = now env,
      totalTimeTracked = 0, version = DATA_VERSION, lastSaved = now env,
      workspacePath = map_option snd (workspaceFolder env),
      workspaceName = map_option fst (workspaceFolder env)\<rparr>"

definition serializeProject :: "TimeSession list \<Rightarrow> nat ProjectStats \<Rightarrow> TimeSession ProjectStats" where
  "serializeProject h v =
     \<lparr>projectName_p = projectName_p v, projectPath_p = projectPath_p v,
      totalTime_p = totalTime_p v, sessions = map (\<lambda>a. h ! a) (sessions v),
      lastActivity_p = lastActivity_p v, firstSession = firstSession v,
      averageSessionDuration = averageSessionDuration v, activeDays = activeDays v\<rparr>"

definition serializeData :: "Tracker \<Rightarrow> StoredData" where
  "serializeData s =
     \<lparr>projects_f = map (\<lambda>(key, v). (key, serializeProject (heap s) v)) (projects s),
      currentSession_f = map_option (\<lambda>a. heap s ! a) (currentSession s),
      lastActivity_f = lastActivity_d s, totalTimeTracked_f = totalTimeTracked s,
      version_f = version s, lastSaved_f = lastSaved s,
      workspacePath_f = workspacePath s, workspaceName_f = workspaceName s\<rparr>"

text \<open>Deserialising an entry allocates one new object for each stored session.\<close>

definition deserializeEntry ::
  "TimeSession list \<times> (string \<times> nat ProjectStats) list \<Rightarrow> string \<times> TimeSession ProjectStats
   \<Rightarrow> TimeSession list \<times> (string \<times> nat ProjectStats) list" where
  "deserializeEntry acc entry =
     (let h = fst acc; v = snd entry;
          projectStats =
            \<lparr>projectName_p = projectName_p v, projectPath_p = projectPath_p v,
             totalTime_p = totalTime_p v,
             sessions = [length h ..< length h + length (sessions v)],
             lastActivity_p = lastActivity_p v, firstSession = firstSession v,
             averageSessionDuration = averageSessionDuration v, activeDays = activeDays v\<rparr>
      in (h @ sessions v, AList.update (fst entry) projectStats (snd acc)))"

definition truthy :: "string option \<Rightarrow> string option" where
  "truthy x = (case x of None \<Rightarrow> None | Some v \<Rightarrow> if v = [] then None else Some v)"

definition deserializeData :: "StoredData \<Rightarrow> TrackingData" where
  "deserializeData rawData =
     (let loaded = foldl deserializeEntry ([], []) (projects_f rawData);
          h = fst loaded
      in \<lparr>heap = (case currentSession_f rawData of None \<Rightarrow> h | Some v \<Rightarrow> h @ [v]),
          projects = snd loaded,
          currentSession = (case currentSession_f rawData of None \<Rightarrow> None | Some v \<Rightarrow> Some (length h)),
          lastActivity_d = lastActivity_f rawData,
          totalTimeTracked = totalTimeTracked_f rawData,
          version = version_f rawData, lastSaved = lastSaved_f rawData,
          workspacePath = truthy (workspacePath_f rawData),
          workspaceName = truthy (workspaceName_f rawData)\<rparr>)"

definition load :: "Env \<Rightarrow> FileContent option \<Rightarrow> FileContent option \<Rightarrow> TrackingData" where
  "load env primary backup =
     (case primary of
        None \<Rightarrow> createDefaultData env
      | Some (Parsed rawData) \<Rightarrow>
          (let trackingData = deserializeData rawData
           in case workspaceFolder env of
                None \<Rightarrow> trackingData
              | Some (name, path) \<Rightarrow>
                  (case workspacePath trackingData of
                     Some dataPath \<Rightarrow>
                       if dataPath \<noteq> path then createDefaultData env else trackingData
                   | None \<Rightarrow>
                       trackingData\<lparr>workspacePath := Some path, workspaceName := Some name\<rparr>))
      | Some Unreadable \<Rightarrow>
          (case backup of
             Some (Parsed rawBackupData) \<Rightarrow> deserializeData rawBackupData
           | Some Unreadable \<Rightarrow> createDefaultData env
           | None \<Rightarrow> createDefaultData env))"

record ExportFile =
  exportDate :: int
  version_x :: string
  projects_x :: "TimeSession ProjectStats list"
  totalTimeTracked_x :: int

text \<open>\<open>exportData\<close>: nothing is written when the save dialog is dismissed.\<close>

definition exportData :: "Env \<Rightarrow> bool \<Rightarrow> Tracker \<Rightarrow> ExportFile option" where
  "exportData env uriChosen s =
     (if \<not> uriChosen then None
      else Some \<lparr>exportDate = now env, version_x = version s,
                 projects_x = map (\<lambda>(key, v). serializeProject (heap s) v) (projects s),
                 totalTimeTracked_x = totalTimeTracked s\<rparr>)"

subsection \<open>Commands and the tracker as a state machine\<close>

definition installData :: "TrackingData \<Rightarrow> Tracker \<Rightarrow> Tracker" where
  "installData d s =
     s\<lparr>heap := heap d, projects := projects d, currentSession := currentSession d,
       lastActivity_d := lastActivity_d d, totalTimeTracked := totalTimeTracked d,
       version := version d, lastSaved := lastSaved d, workspacePath := workspacePath d,
       workspaceName := workspaceName d\<rparr>"

definition start :: "Env \<Rightarrow> FileContent option \<Rightarrow> FileContent option \<Rightarrow> Tracker \<Rightarrow> Tracker" where
  "start env primary backup s =
     (if isRunning s then s
      else (let s1 = installData (load env primary backup) s;
                s2 = (if autoStart (config s1) then startOrResumeSession env s1 else s1)
            in s2\<lparr>isRunning := True, isPaused := False\<rparr>))"

definition pause :: "Tracker \<Rightarrow> Tracker" where
  "pause s =
     (if \<not> isRunning s then s
      else (case currentSession s of
              Some a \<Rightarrow> s\<lparr>heap := (heap s)[a := (heap s ! a)\<lparr>isActive := False\<rparr>],
                          isPaused := True\<rparr>
            | None \<Rightarrow> s\<lparr>isPaused := True\<rparr>))"

definition resume :: "Env \<Rightarrow> Tracker \<Rightarrow> Tracker" where
  "resume env s =
     (if \<not> isRunning s then s
      else (case currentSession s of
              Some a \<Rightarrow> s\<lparr>heap := (heap s)[a := (heap s ! a)\<lparr>isActive := True,
                                                 lastActivity := now env\<rparr>],
                          isPaused := False\<rparr>
            | None \<Rightarrow> s\<lparr>isPaused := False\<rparr>))"

definition stop :: "(int \<Rightarrow> int \<Rightarrow> int \<Rightarrow> int) \<Rightarrow> Env \<Rightarrow> Tracker \<Rightarrow> Tracker" where
  "stop sd env s =
     (if \<not> isRunning s then s
      else (save env (endCurrentSession sd env None s))\<lparr>isRunning := False, isPaused := False\<rparr>)"

definition reset :: "Env \<Rightarrow> Tracker \<Rightarrow> Tracker" where
  "reset env s =
     (case currentSession s of
        None \<Rightarrow> s
      | Some a \<Rightarrow>
          (let path = projectPath (heap s ! a);
               s1 = (case map_of (projects s) path of
                       Some projectStats \<Rightarrow>
                         s\<lparr>projects := AList.update path
                              (recalculateProjectStats (heap s)
                                 (projectStats\<lparr>sessions :=
                                    filter (\<lambda>b. sessionId (heap s ! b) \<noteq> sessionId (heap s ! a))
                                      (sessions projectStats)\<rparr>))
                              (projects s)\<rparr>
                     | None \<Rightarrow> s)
           in save env (s1\<lparr>currentSession := None, lastSessionDay := None\<rparr>)))"

datatype Op =
    Start "FileContent option" "FileContent option"
  | Stop
  | Pause
  | Resume
  | Reset
  | Tick
  | TextChange
  | CursorChange
  | WindowState bool
  | Heartbeat
  | ConfigurationChanged ExtensionConfig
  | AutoSave

fun step :: "(int \<Rightarrow> int \<Rightarrow> int \<Rightarrow> int) \<Rightarrow> Tracker \<Rightarrow> Env \<times> Op \<Rightarrow> Tracker" where
  "step sd s (env, Start primary backup) = start env primary backup s"
| "step sd s (env, Stop) = stop sd env s"
| "step sd s (env, Pause) = pause s"
| "step sd s (env, Resume) = resume env s"
| "step sd s (env, Reset) = reset env s"
| "step sd s (env, Tick) = (if isRunning s then tick sd env s else s)"
| "step sd s (env, TextChange) =
     recordActivity sd env \<lparr>eventType = text_change, timestamp = now env\<rparr> s"
| "step sd s (env, CursorChange) =
     recordActivity sd env \<lparr>eventType = cursor_change, timestamp = now env\<rparr> s"
| "step sd s (env, WindowState focused) = onWindowStateChangeEnhanced sd env focused s"
| "step sd s (env, Heartbeat) = checkSleepWake sd env s"
| "step sd s (env, ConfigurationChanged cfg) = s\<lparr>config := cfg\<rparr>"
| "step sd s (env, AutoSave) = (if isRunning s then save env s else s)"

definition run :: "(int \<Rightarrow> int \<Rightarrow> int \<Rightarrow> int) \<Rightarrow> Tracker \<Rightarrow> (Env \<times> Op) list \<Rightarrow> Tracker" where
  "run sd s ops = foldl (step sd) s ops"

text \<open>
  The two timers (\<open>tick\<close> and \<open>autoSave\<close>) exist from \<open>start\<close> to \<open>stop\<close>, so their
  callbacks run only while the tracker is running.

  The state the two constructors leave at time \<open>t0\<close>:
\<close>

definition initialTracker :: "ExtensionConfig \<Rightarrow> bool \<Rightarrow> int \<Rightarrow> Tracker" where
  "initialTracker cfg focused t0 =
     \<lparr>heap = [], projects = [], currentSession = None, lastActivity_d = t0,
      totalTimeTracked = 0, version = ''1.0.0'', lastSaved = t0,
      workspacePath = None, workspaceName = None,
      config = cfg,
      monitor = \<lparr>lastActivity_m = t0, isWindowFocused = focused, lastHeartbeat = t0\<rparr>,
      isRunning = False, isPaused = False, lastSessionDay = None\<rparr>"

definition defaultConfig :: ExtensionConfig where
  "defaultConfig =
     \<lparr>idleThreshold = 5, autoStart = True, showInStatusBar = True, saveInterval = 30,
      trackBackground = True, autoEndSessionAfterIdle = True, autoEndIdleThreshold = 30,
      autoEndSessionOnProjectChange = True\<rparr>"

subsection \<open>Predicates of the specification\<close>

text \<open>The session addresses in the \<open>sessions\<close> array of the project stored under a path.\<close>

definition projectSessions :: "string \<Rightarrow> Tracker \<Rightarrow> nat list" where
  "projectSessions path s =
     (case map_of (projects s) path of None \<Rightarrow> [] | Some projectStats \<Rightarrow> sessions projectStats)"


text \<open>The completed sessions of a project: those of its list that have an \<open>endTime\<close>.\<close>

definition completedOf :: "TimeSession list \<Rightarrow> nat ProjectStats \<Rightarrow> TimeSession list" where
  "completedOf h ps = map (\<lambda>a. h ! a) (filter (\<lambda>a. endTime (h ! a) \<noteq> None) (sessions ps))"

text \<open>
  \<open>activeDays\<close> in the words of the specification: the number of distinct calendar dates on
  which the completed sessions started. A calendar date is a day of local time, as where
  the tracker itself groups sessions by day (\<open>toLocaleDateString\<close>) and where it splits a
  session at midnight (\<open>setHours\<close>).
\<close>

definition activeDays_spec :: "int \<Rightarrow> TimeSession list \<Rightarrow> nat" where
  "activeDays_spec tz completed = card (set (map (\<lambda>c. localDay tz (startTime c)) completed))"

text \<open>
  Between two stores: no object is lost, no \<open>totalTime\<close> of an existing object decreases,
  and every object allocated in between has a non-negative \<open>totalTime\<close>.
\<close>

definition totalTimeMonotone :: "TimeSession list \<Rightarrow> TimeSession list \<Rightarrow> bool" where
  "totalTimeMonotone h h' =
     (length h \<le> length h'
      \<and> (\<forall>a. a < length h \<longrightarrow> totalTime (h ! a) \<le> totalTime (h' ! a))
      \<and> (\<forall>a. length h \<le> a \<and> a < length h' \<longrightarrow> 0 \<le> totalTime (h' ! a)))"

definition nonNegativeTotals :: "TimeSession list \<Rightarrow> bool" where
  "nonNegativeTotals h = list_all (\<lambda>session. 0 \<le> totalTime session) h"

fun isStart :: "Op \<Rightarrow> bool" where
  "isStart (Start primary backup) = True"
| "isStart other = False"

text \<open>
  Open sessions. \<open>atMostOneOpen\<close> is the invariant of the specification: no project's list
  holds two sessions without \<open>endTime\<close>. \<open>openOnlyCurrent\<close> is the stronger statement that
  holds while the tracker runs: project keys are distinct, every address in a list is that
  of an object, and a session of a list that has no \<open>endTime\<close> is the current session and is
  filed under its own \<open>projectPath\<close>.
\<close>

definition sessionLists :: "(string \<times> nat ProjectStats) list \<Rightarrow> (string \<times> nat list) list" where
  "sessionLists ps = map (\<lambda>entry. (fst entry, sessions (snd entry))) ps"

definition isOpen :: "TimeSession list \<Rightarrow> nat \<Rightarrow> bool" where
  "isOpen h a = (endTime (h ! a) = None)"

definition openAreCurrent ::
  "TimeSession list \<Rightarrow> nat option \<Rightarrow> (string \<times> nat ProjectStats) list \<Rightarrow> bool" where
  "openAreCurrent h c ps =
     (distinct (map fst (sessionLists ps))
      \<and> (\<forall>entry \<in> set (sessionLists ps). \<forall>a \<in> set (snd entry).
            a < length h
            \<and> (isOpen h a \<longrightarrow> c = Some a \<and> projectPath (h ! a) = fst entry))
      \<and> (\<forall>entry \<in> set (sessionLists ps). length (filter (isOpen h) (snd entry)) \<le> 1))"

definition openOnlyCurrent :: "Tracker \<Rightarrow> bool" where
  "openOnlyCurrent s = openAreCurrent (heap s) (currentSession s) (projects s)"







text \<open>A current session exists only while the tracker is running.\<close>

definition sessionImpliesRunning :: "Tracker \<Rightarrow> bool" where
  "sessionImpliesRunning s = (currentSession s = None \<or> isRunning s)"

subsection \<open>Concrete environments and runs\<close>

definition ids :: "nat \<Rightarrow> string" where
  "ids n = ''id'' @ replicate n (CHR ''x'')"

definition envAt :: "int \<Rightarrow> Env" where
  "envAt t = \<lparr>now = t, tzOffset = 0, workspaceFolder = Some (''proj'', ''/proj''),
              activeFile = None, randomId = ids\<rparr>"

definition envNoProject :: "int \<Rightarrow> Env" where
  "envNoProject t = \<lparr>now = t, tzOffset = 0, workspaceFolder = None, activeFile = None,
                     randomId = ids\<rparr>"

definition envFile :: "int \<Rightarrow> Env" where
  "envFile t = \<lparr>now = t, tzOffset = 0, workspaceFolder = None,
                activeFile = Some ''/home/u/a.ts'', randomId = ids\<rparr>"

text \<open>A tracker started at time 0 in the workspace \<open>/proj\<close>: one open session, address 0.\<close>

definition startedTracker :: "ExtensionConfig \<Rightarrow> Tracker" where
  "startedTracker cfg = run safeTimeDifference (initialTracker cfg True 0) [(envAt 0, Start None None)]"

text \<open>
  Runs from the constructors' state. In \<open>wakeRun\<close> the tracker starts with no project, the
  machine is suspended before the first heartbeat check, and after it resumes a keystroke
  in a file arrives one millisecond before the heartbeat check. In \<open>weekendRun\<close> the
  machine is suspended on day 0 and resumes on day 3, where the tick runs before the
  heartbeat check; in \<open>pausedWeekendRun\<close> (\<open>autoEndSessionAfterIdle\<close> off) the heartbeat
  check runs first. In \<open>midnightRun\<close> a session starts half a second before midnight and
  the first tick comes one second later. In \<open>crashRestartRun\<close> a session is started and
  saved by the periodic save, the process ends without \<open>stop\<close>, and a new process starts
  two hours later from the saved file.
\<close>

definition wakeRun :: Tracker where
  "wakeRun =
     run safeTimeDifference (initialTracker defaultConfig True 0)
       [(envNoProject 0, Start None None),
        (envFile 100000, TextChange),
        (envFile 100001, Heartbeat)]"

definition weekendRun :: Tracker where
  "weekendRun =
     run safeTimeDifference (initialTracker defaultConfig True 36000000)
       [(envAt 36000000, Start None None),
        (envAt 36010000, Heartbeat),
        (envAt 295200500, Tick)]"

definition pausedWeekendRun :: Tracker where
  "pausedWeekendRun =
     run safeTimeDifference
       (initialTracker (defaultConfig\<lparr>autoEndSessionAfterIdle := False\<rparr>) True 36000000)
       [(envAt 36000000, Start None None),
        (envAt 36010000, Heartbeat),
        (envAt 295200000, Heartbeat),
        (envAt 295201000, Tick)]"

definition midnightRun :: Tracker where
  "midnightRun =
     run safeTimeDifference (initialTracker defaultConfig True 86399500)
       [(envAt 86399500, Start None None), (envAt 86400500, Tick)]"






text \<open>
  A run two hours east of UTC. The session starts at 23:59:59.5 local time on day 0, the
  first tick comes one second later, on day 1, and the tracker is stopped after one more
  second.
\<close>

definition envEast :: "int \<Rightarrow> Env" where
  "envEast t = \<lparr>now = t, tzOffset = 7200000, workspaceFolder = Some (''proj'', ''/proj''),
                activeFile = None, randomId = ids\<rparr>"

definition lateNightRun :: Tracker where
  "lateNightRun =
     run safeTimeDifference (initialTracker defaultConfig True 79199500)
       [(envEast 79199500, Start None None), (envEast 79200500, Tick), (envEast 79201500, Stop)]"

text \<open>
  A file saved by the periodic save after one second of tracked time, and a new process
  that starts from it in a window with no folder and no editor, and is stopped one second
  later.
\<close>

definition savedWhileTracking :: StoredData where
  "savedWhileTracking =
     serializeData
       (run safeTimeDifference (initialTracker defaultConfig True 0)
          [(envAt 0, Start None None), (envAt 1000, Tick), (envAt 30000, AutoSave)])"

definition restoredRun :: Tracker where
  "restoredRun =
     run safeTimeDifference (initialTracker defaultConfig True 31000)
       [(envNoProject 31000, Start (Some (Parsed savedWhileTracking)) None),
        (envNoProject 32000, Stop)]"

text \<open>
  The grand total in the words of the specification: the sum, over all projects, of the
  \<open>totalTime\<close> of their completed sessions.
\<close>

definition completedTotal :: "Tracker \<Rightarrow> int" where
  "completedTotal s =
     sum_list (map (\<lambda>entry. sum_list (map totalTime (completedOf (heap s) (snd entry))))
                 (projects s))"

text \<open>A backup file written for another workspace.\<close>

definition foreignBackup :: StoredData where
  "foreignBackup =
     \<lparr>projects_f = [], currentSession_f = None, lastActivity_f = 0, totalTimeTracked_f = 0,
      version_f = ''1.0.0'', lastSaved_f = 0, workspacePath_f = Some ''/other'',
      workspaceName_f = Some ''other''\<rparr>"

section \<open>Theorems\<close>

text \<open>
  C6. For all inputs, \<open>getCurrentState\<close> is the reference classifier of the specification
  (sleep gap above 30000 ms, idle when the activity gap exceeds the threshold in minutes
  times 60000 or a sleep gap is detected, then the four-way case distinction), and
  \<open>isActive()\<close> of the monitor is true exactly for the two active states.
\<close>

theorem getCurrentState_refines_classifier:
  "getCurrentState cfg m nw =
     classifier_spec nw (lastActivity_m m) (lastHeartbeat m) (isWindowFocused m)
       (idleThreshold cfg) (trackBackground cfg)
   \<and> monitorIsActive cfg m nw =
     (getCurrentState cfg m nw \<in> {ACTIVE_FOREGROUND, ACTIVE_BACKGROUND})"
  by (simp add: getCurrentState_def classifier_spec_def monitorIsActive_def
      SLEEP_THRESHOLD_def Let_def)

subsection \<open>Frame lemmas\<close>

lemma heap_recalculateProject [simp]: "heap (recalculateProject path s) = heap s"
  by (simp add: recalculateProject_def split: option.split)

lemma currentSession_recalculateProject [simp]:
  "currentSession (recalculateProject path s) = currentSession s"
  by (simp add: recalculateProject_def split: option.split)

lemma heap_addSessionToProject [simp]: "heap (addSessionToProject a s) = heap s"
  by (simp add: addSessionToProject_def Let_def)

lemma currentSession_addSessionToProject [simp]:
  "currentSession (addSessionToProject a s) = currentSession s"
  by (simp add: addSessionToProject_def Let_def)

lemma endCurrentSession_whole:
  "endCurrentSession sd env endTimeArg s =
     (case currentSession s of
        None \<Rightarrow> s
      | Some a \<Rightarrow>
          (let session = heap s ! a;
               finalEndTime =
                 (case endTimeArg of
                    Some t \<Rightarrow> t
                  | None \<Rightarrow> (case endTime session of Some t \<Rightarrow> t | None \<Rightarrow> now env));
               ended = session\<lparr>endTime := Some finalEndTime, isActive := False\<rparr>;
               remainingActiveTime =
                 sd finalEndTime (lastActiveTime ended) (idleThreshold (config s));
               credited =
                 (if monitorIsActive (config s) (monitor s) (now env) \<and> remainingActiveTime > 0
                  then ended\<lparr>totalTime := totalTime ended + remainingActiveTime\<rparr>
                  else ended);
               s1 = recalculateProject (projectPath session) (s\<lparr>heap := (heap s)[a := credited]\<rparr>);
               s2 = save env (s1\<lparr>currentSession := None\<rparr>)
           in s2\<lparr>lastSessionDay := None\<rparr>))"
  by (simp add: endCurrentSession_def endCurrentSessionBegin_def endCurrentSessionFinish_def
      Let_def split: option.split)

lemma currentSession_endCurrentSession [simp]:
  "currentSession (endCurrentSession sd env e s) = None"
  by (simp add: endCurrentSession_whole Let_def save_def split: option.split)

lemma currentSession_endCurrentSessionBegin [simp]:
  "currentSession (endCurrentSessionBegin sd env e s) = None"
  by (simp add: endCurrentSessionBegin_def Let_def split: option.split)

lemma endCurrentSession_Begin:
  "endCurrentSession sd env e s =
     (if currentSession s = None then s
      else endCurrentSessionFinish env (endCurrentSessionBegin sd env e s))"
  by (simp add: endCurrentSession_def split: option.split)

lemma endCurrentSessionBegin_frame:
  "heap (endCurrentSessionBegin sd env e s) = heap (endCurrentSession sd env e s)"
  "projects (endCurrentSessionBegin sd env e s) = projects (endCurrentSession sd env e s)"
  "totalTimeTracked (endCurrentSessionBegin sd env e s)
     = totalTimeTracked (endCurrentSession sd env e s)"
  by (simp_all add: endCurrentSession_def endCurrentSessionFinish_def save_def
      endCurrentSessionBegin_def split: option.split)

lemma completeSaves_eq:
  "completeSaves env n s =
     (if n = 0 then s else s\<lparr>lastSaved := now env, lastSessionDay := None\<rparr>)"
  by (induction n arbitrary: s) (simp_all add: endCurrentSessionFinish_def save_def)

lemma fst_recordActivities:
  "fst (recordActivities sd env events s)
     = foldl (\<lambda>st event. recordActivity sd env event st) s events"
  by (induction events arbitrary: s) (simp_all add: Let_def case_prod_beta)

lemma checkSleepWake_eq:
  "checkSleepWake sd env s =
     (let events = sleepWakeEvents (monitor s) (now env);
          s1 = foldl (\<lambda>st event. recordActivity sd env event st) s events;
          s2 = s1\<lparr>monitor := (monitor s1)\<lparr>lastHeartbeat := now env\<rparr>\<rparr>
      in completeSaves env (snd (recordActivities sd env events s)) s2)"
  by (simp add: checkSleepWake_def Let_def fst_recordActivities [symmetric] case_prod_beta)

lemmas run_simps =
  run_def initialTracker_def defaultConfig_def envNoProject_def envFile_def envAt_def ids_def
  start_def stop_def load_def createDefaultData_def installData_def DATA_VERSION_def
  startOrResumeSession_def getCurrentProject_def recordActivity_def onActivity_def
  checkSleepWake_def sleepWakeEvents_def SLEEP_THRESHOLD_def HEARTBEAT_INTERVAL_def
  onActivityPending_def endCurrentSession_def endCurrentSessionBegin_def
  endCurrentSessionFinish_def monitorIsActive_def getCurrentState_def findRecentSession_def
  startNew_def newSession_def addSessionToProject_def recalculateProjectStats_def
  recalculateProject_def trackSessionDay_def localDay_def fileNameOf_def isSeparator_def
  generateSessionId_def save_def formatDate_def tick_def checkAndHandleMidnightCrossing_def
  splitSessionAtMidnight_def startOfLocalDay_def checkAndHandleProjectChange_def
  checkAndHandleIdleSessionEnd_def accumulateActiveTime_def shouldResumeSession_def
  resumeExisting_def safeTimeDifference_def Let_def

subsection \<open>A session exists only while the tracker runs\<close>

lemma isRunning_recalculateProject [simp]: "isRunning (recalculateProject path s) = isRunning s"
  by (simp add: recalculateProject_def split: option.split)

lemma isRunning_endCurrentSession [simp]:
  "isRunning (endCurrentSession sd env e s) = isRunning s"
  by (simp add: endCurrentSession_whole Let_def save_def split: option.split)

lemma isRunning_endCurrentSessionBegin [simp]:
  "isRunning (endCurrentSessionBegin sd env e s) = isRunning s"
  by (simp add: endCurrentSessionBegin_def Let_def split: option.split)

lemma isRunning_startOrResumeSession [simp]:
  "isRunning (startOrResumeSession env s) = isRunning s"
  by (simp add: startOrResumeSession_def trackSessionDay_def resumeExisting_def startNew_def
      addSessionToProject_def Let_def split: option.split)

lemma isRunning_splitSessionAtMidnight [simp]:
  "isRunning (splitSessionAtMidnight env s) = isRunning s"
  by (simp add: splitSessionAtMidnight_def startNew_def addSessionToProject_def save_def Let_def
      split: option.split)

lemma isRunning_checkAndHandleMidnightCrossing [simp]:
  "isRunning (checkAndHandleMidnightCrossing env s) = isRunning s"
  by (simp add: checkAndHandleMidnightCrossing_def Let_def split: option.split)

lemma isRunning_checkAndHandleIdleSessionEnd [simp]:
  "isRunning (checkAndHandleIdleSessionEnd sd env s) = isRunning s"
  by (simp add: checkAndHandleIdleSessionEnd_def Let_def split: option.split)

lemma isRunning_checkAndHandleProjectChange [simp]:
  "isRunning (checkAndHandleProjectChange sd env s) = isRunning s"
  by (simp add: checkAndHandleProjectChange_def split: option.split)

lemma isRunning_accumulateActiveTime [simp]:
  "isRunning (accumulateActiveTime sd env s) = isRunning s"
  by (simp add: accumulateActiveTime_def Let_def split: option.split)

lemma isRunning_tick [simp]: "isRunning (tick sd env s) = isRunning s"
  by (simp add: tick_def Let_def)

lemma isRunning_onActivity [simp]: "isRunning (onActivity sd env event s) = isRunning s"
  by (simp add: onActivity_def Let_def split: option.split)

lemma isRunning_recordActivity [simp]: "isRunning (recordActivity sd env event s) = isRunning s"
  by (simp add: recordActivity_def)

lemma currentSession_recordActivity_stopped:
  "\<not> isRunning s \<Longrightarrow> currentSession (recordActivity sd env event s) = currentSession s"
  by (simp add: recordActivity_def onActivity_def)

lemma running_recordActivity:
  "sessionImpliesRunning s \<Longrightarrow> sessionImpliesRunning (recordActivity sd env event s)"
  by (cases "isRunning s")
     (simp_all add: sessionImpliesRunning_def currentSession_recordActivity_stopped)

lemma running_monitor [simp]:
  "sessionImpliesRunning (s\<lparr>monitor := m\<rparr>) = sessionImpliesRunning s"
  by (simp add: sessionImpliesRunning_def)

lemma running_checkSleepWake:
  assumes "sessionImpliesRunning s"
  shows "sessionImpliesRunning (checkSleepWake sd env s)"
proof -
  have "sessionImpliesRunning (foldl (\<lambda>st event. recordActivity sd env event st) s evs)" for evs
    using assms by (induction evs arbitrary: s) (simp_all add: running_recordActivity)
  then show ?thesis
    by (simp add: checkSleepWake_eq completeSaves_eq Let_def sessionImpliesRunning_def)
qed

lemma running_onWindowStateChangeEnhanced:
  "sessionImpliesRunning s \<Longrightarrow> sessionImpliesRunning (onWindowStateChangeEnhanced sd env focused s)"
  by (simp add: onWindowStateChangeEnhanced_def Let_def running_recordActivity)

lemma running_step:
  assumes "sessionImpliesRunning s"
  shows "sessionImpliesRunning (step sd s (env, op))"
proof (cases op)
  case (Start primary backup)
  then show ?thesis using assms by (auto simp: start_def Let_def sessionImpliesRunning_def)
next
  case Stop
  then show ?thesis using assms by (auto simp: stop_def save_def sessionImpliesRunning_def)
next
  case Pause
  then show ?thesis using assms
    by (auto simp: pause_def sessionImpliesRunning_def split: option.split)
next
  case Resume
  then show ?thesis using assms
    by (auto simp: resume_def sessionImpliesRunning_def split: option.split)
next
  case Reset
  then show ?thesis using assms
    by (auto simp: reset_def Let_def save_def sessionImpliesRunning_def split: option.split)
next
  case Tick
  then show ?thesis using assms by (auto simp: sessionImpliesRunning_def)
next
  case TextChange
  then show ?thesis using assms by (simp add: running_recordActivity)
next
  case CursorChange
  then show ?thesis using assms by (simp add: running_recordActivity)
next
  case (WindowState focused)
  then show ?thesis using assms by (simp add: running_onWindowStateChangeEnhanced)
next
  case Heartbeat
  then show ?thesis using assms by (simp add: running_checkSleepWake)
next
  case (ConfigurationChanged cfg)
  then show ?thesis using assms by (simp add: sessionImpliesRunning_def)
next
  case AutoSave
  then show ?thesis using assms by (auto simp: save_def sessionImpliesRunning_def)
qed

lemma running_run:
  "sessionImpliesRunning s \<Longrightarrow> sessionImpliesRunning (run sd s ops)"
proof (induction ops arbitrary: s)
  case Nil
  then show ?case by (simp add: run_def)
next
  case (Cons eo ops)
  obtain env op where eo: "eo = (env, op)" by (cases eo)
  from Cons.prems have "sessionImpliesRunning (step sd s (env, op))" by (rule running_step)
  from Cons.IH [OF this] show ?case by (simp add: run_def eo)
qed

lemma session_implies_running:
  "currentSession (run sd (initialTracker cfg focused t0) ops) = Some a
   \<Longrightarrow> isRunning (run sd (initialTracker cfg focused t0) ops)"
  using running_run [of "initialTracker cfg focused t0" sd ops]
  by (simp add: sessionImpliesRunning_def initialTracker_def)

subsection \<open>Sleep and wake\<close>



subsection \<open>Resume or new session\<close>

lemma sort_key_head:
  assumes "sort_key f xs = y # ys"
  shows "y \<in> set xs \<and> (\<forall>x \<in> set xs. f y \<le> f x)"
proof -
  have "set (sort_key f xs) = set xs" by simp
  with assms have mem: "set xs = insert y (set ys)" by simp
  have "sorted (map f (sort_key f xs))" by (rule sorted_sort_key)
  with assms have "\<forall>z \<in> set ys. f y \<le> f z" by simp
  with mem show ?thesis by auto
qed

lemma sort_key_Nil_iff: "sort_key f xs = [] \<longleftrightarrow> xs = []"
  by (metis length_sort length_0_conv)




lemma heap_trackSessionDay [simp]: "heap (trackSessionDay env s) = heap s"
  by (simp add: trackSessionDay_def split: option.split)
lemma currentSession_trackSessionDay [simp]: "currentSession (trackSessionDay env s) = currentSession s"
  by (simp add: trackSessionDay_def split: option.split)
lemma projects_trackSessionDay [simp]: "projects (trackSessionDay env s) = projects s"
  by (simp add: trackSessionDay_def split: option.split)
lemma projectSessions_trackSessionDay [simp]:
  "projectSessions path (trackSessionDay env s) = projectSessions path s"
  by (simp add: projectSessions_def)



subsection \<open>Project aggregates\<close>

lemma foldl_totalTime:
  "foldl (\<lambda>total a. total + totalTime (h ! a)) acc xs = acc + sum_list (map (\<lambda>a. totalTime (h ! a)) xs)"
  by (induction xs arbitrary: acc) simp_all

text \<open>
  What \<open>recalculateProjectStats\<close> computes, from the completed sessions of the project's
  list: the sum of their \<open>totalTime\<close>, the quotient by their number (0 if there is none),
  the number of distinct UTC dates (\<open>formatDate\<close>) of their \<open>startTime\<close>, and the latest
  \<open>lastActivity\<close> among them.
\<close>

lemma recalculateProjectStats_fields:
  fixes h ps
  defines "completed \<equiv> completedOf h ps"
  shows "sessions (recalculateProjectStats h ps) = sessions ps"
    and "totalTime_p (recalculateProjectStats h ps) = sum_list (map totalTime completed)"
    and "averageSessionDuration (recalculateProjectStats h ps) =
           (if completed = [] then 0
            else of_int (sum_list (map totalTime completed)) / of_nat (length completed))"
    and "activeDays (recalculateProjectStats h ps)
           = card (set (map (\<lambda>c. formatDate (startTime c)) completed))"
    and "completed \<noteq> [] \<Longrightarrow>
           lastActivity_p (recalculateProjectStats h ps) = Max (set (map lastActivity completed))"
proof -
  define cs where "cs = filter (\<lambda>a. endTime (h ! a) \<noteq> None) (sessions ps)"
  have comp: "completed = map (\<lambda>a. h ! a) cs"
    by (simp add: completed_def completedOf_def cs_def)
  show "sessions (recalculateProjectStats h ps) = sessions ps"
    by (simp add: recalculateProjectStats_def Let_def split: list.split)
  show "totalTime_p (recalculateProjectStats h ps) = sum_list (map totalTime completed)"
    unfolding comp
    by (simp add: recalculateProjectStats_def Let_def cs_def foldl_totalTime comp_def split: list.split)
  show "averageSessionDuration (recalculateProjectStats h ps) =
     (if completed = [] then 0
      else of_int (sum_list (map totalTime completed)) / of_nat (length completed))"
    unfolding comp
    by (auto simp add: recalculateProjectStats_def Let_def cs_def foldl_totalTime comp_def
        filter_empty_conv sort_key_Nil_iff split: list.split)
  show "activeDays (recalculateProjectStats h ps)
      = card (set (map (\<lambda>c. formatDate (startTime c)) completed))"
    unfolding comp
    by (auto simp add: recalculateProjectStats_def Let_def cs_def length_remdups_card_conv comp_def
        filter_empty_conv split: list.split)
  show "lastActivity_p (recalculateProjectStats h ps) = Max (set (map lastActivity completed))"
    if "completed \<noteq> []"
  proof -
    from that have ne: "cs \<noteq> []" by (simp add: comp)
    obtain y ys where srt: "sort_key (\<lambda>a. - lastActivity (h ! a)) cs = y # ys"
      using ne by (cases "sort_key (\<lambda>a. - lastActivity (h ! a)) cs") (simp_all add: sort_key_Nil_iff)
    from sort_key_head [OF srt] have y: "y \<in> set cs" and le: "\<forall>x \<in> set cs. lastActivity (h ! x) \<le> lastActivity (h ! y)"
      by auto
    have "lastActivity_p (recalculateProjectStats h ps) = lastActivity (h ! y)"
      using srt by (simp add: recalculateProjectStats_def Let_def cs_def)
    moreover have "Max (set (map lastActivity (map (\<lambda>a. h ! a) cs))) = lastActivity (h ! y)"
      using y le by (intro Max_eqI) auto
    ultimately show ?thesis by (simp add: comp)
  qed
qed

subsection \<open>Accumulated time never decreases\<close>

lemma mono_refl [simp]: "totalTimeMonotone h h"
  by (simp add: totalTimeMonotone_def)

lemma mono_trans: "totalTimeMonotone h1 h2 \<Longrightarrow> totalTimeMonotone h2 h3 \<Longrightarrow> totalTimeMonotone h1 h3"
proof -
  assume a: "totalTimeMonotone h1 h2" and b: "totalTimeMonotone h2 h3"
  have len: "length h1 \<le> length h3"
    using a b by (simp add: totalTimeMonotone_def)
  have old: "totalTime (h1 ! x) \<le> totalTime (h3 ! x)" if "x < length h1" for x
  proof -
    from that a have "totalTime (h1 ! x) \<le> totalTime (h2 ! x)" and "x < length h2"
      by (simp_all add: totalTimeMonotone_def)
    moreover from this b have "totalTime (h2 ! x) \<le> totalTime (h3 ! x)"
      by (simp add: totalTimeMonotone_def)
    ultimately show ?thesis by simp
  qed
  have new: "0 \<le> totalTime (h3 ! x)" if "length h1 \<le> x" and "x < length h3" for x
  proof (cases "x < length h2")
    case True
    with that a have "0 \<le> totalTime (h2 ! x)" by (simp add: totalTimeMonotone_def)
    moreover from True b have "totalTime (h2 ! x) \<le> totalTime (h3 ! x)"
      by (simp add: totalTimeMonotone_def)
    ultimately show ?thesis by simp
  next
    case False
    with that b show ?thesis by (simp add: totalTimeMonotone_def)
  qed
  from len old new show ?thesis by (simp add: totalTimeMonotone_def)
qed

lemma mono_update:
  "(a < length h \<Longrightarrow> totalTime (h ! a) \<le> totalTime x) \<Longrightarrow> totalTimeMonotone h (h[a := x])"
  by (cases "a < length h") (auto simp: totalTimeMonotone_def nth_list_update)

lemma mono_append: "0 \<le> totalTime x \<Longrightarrow> totalTimeMonotone h (h @ [x])"
  by (auto simp: totalTimeMonotone_def nth_append)

lemma mono_endCurrentSession:
  "totalTimeMonotone (heap s) (heap (endCurrentSession sd env e s))"
  by (auto simp: endCurrentSession_whole Let_def save_def intro!: mono_update split: option.split)

lemma mono_endCurrentSessionBegin:
  "totalTimeMonotone (heap s) (heap (endCurrentSessionBegin sd env e s))"
  by (simp add: endCurrentSessionBegin_frame mono_endCurrentSession)

lemma mono_startNew: "totalTimeMonotone (heap s) (heap (startNew env name path s))"
  by (simp add: startNew_def Let_def newSession_def mono_append)

lemma mono_startOrResumeSession:
  "totalTimeMonotone (heap s) (heap (startOrResumeSession env s))"
  by (auto simp: startOrResumeSession_def resumeExisting_def mono_startNew intro!: mono_update
      split: option.split)

lemma mono_splitSessionAtMidnight:
  "totalTimeMonotone (heap s) (heap (splitSessionAtMidnight env s))"
proof (cases "currentSession s")
  case None
  then show ?thesis by (simp add: splitSessionAtMidnight_def)
next
  case (Some a)
  define s1 where "s1 = (recalculateProject (projectPath (heap s ! a))
     (s\<lparr>heap := (heap s)[a :=
        (if monitorIsActive (config s) (monitor s) (now env)
            \<and> lastActiveTime (heap s ! a) < startOfLocalDay (tzOffset env) (now env) - 1
         then (heap s ! a)\<lparr>endTime := Some (startOfLocalDay (tzOffset env) (now env) - 1),
                 isActive := False,
                 totalTime := totalTime (heap s ! a)
                    + (startOfLocalDay (tzOffset env) (now env) - 1 - lastActiveTime (heap s ! a))\<rparr>
         else (heap s ! a)\<lparr>endTime := Some (startOfLocalDay (tzOffset env) (now env) - 1),
                 isActive := False\<rparr>)]\<rparr>))\<lparr>currentSession := None\<rparr>"
  have eq: "splitSessionAtMidnight env s
      = save env (startNew env (projectName (heap s ! a)) (projectPath (heap s ! a)) s1)"
    using Some by (simp add: splitSessionAtMidnight_def Let_def s1_def)
  have "totalTimeMonotone (heap s) (heap s1)"
    by (auto simp: s1_def intro!: mono_update)
  moreover have "totalTimeMonotone (heap s1) (heap (splitSessionAtMidnight env s))"
    by (simp add: eq save_def mono_startNew)
  ultimately show ?thesis by (rule mono_trans)
qed

lemma mono_checkAndHandleMidnightCrossing:
  "totalTimeMonotone (heap s) (heap (checkAndHandleMidnightCrossing env s))"
  by (simp add: checkAndHandleMidnightCrossing_def Let_def mono_splitSessionAtMidnight
      split: option.split)

lemma mono_checkAndHandleIdleSessionEnd:
  "totalTimeMonotone (heap s) (heap (checkAndHandleIdleSessionEnd sd env s))"
  by (simp add: checkAndHandleIdleSessionEnd_def Let_def mono_endCurrentSession split: option.split)

lemma mono_checkAndHandleProjectChange:
  "totalTimeMonotone (heap s) (heap (checkAndHandleProjectChange sd env s))"
  by (auto simp: checkAndHandleProjectChange_def mono_endCurrentSession split: option.split
      intro: mono_trans [OF mono_endCurrentSession mono_startOrResumeSession])

lemma mono_accumulateActiveTime:
  "totalTimeMonotone (heap s) (heap (accumulateActiveTime sd env s))"
  by (auto simp: accumulateActiveTime_def Let_def intro!: mono_update split: option.split)

lemma mono_tick: "totalTimeMonotone (heap s) (heap (tick sd env s))"
proof -
  define s1 where "s1 = (if currentSession s \<noteq> None \<and> \<not> isPaused s
                then checkAndHandleMidnightCrossing env s else s)"
  define s2 where "s2 = (if autoEndSessionOnProjectChange (config s1) \<and> currentSession s1 \<noteq> None
                   \<and> \<not> isPaused s1
                then checkAndHandleProjectChange sd env s1 else s1)"
  define s3 where "s3 = (if autoEndSessionAfterIdle (config s2) \<and> currentSession s2 \<noteq> None
                   \<and> \<not> isPaused s2
                then checkAndHandleIdleSessionEnd sd env s2 else s2)"
  define s4 where "s4 = accumulateActiveTime sd env s3"
  have t: "tick sd env s = (if autoStart (config s4) \<and> currentSession s4 = None \<and> \<not> isPaused s4
            \<and> monitorIsActive (config s4) (monitor s4) (now env)
         then startOrResumeSession env s4 else s4)"
    by (simp only: tick_def Let_def s1_def s2_def s3_def s4_def)
  have m1: "totalTimeMonotone (heap s) (heap s1)"
    by (simp add: s1_def mono_checkAndHandleMidnightCrossing)
  have m2: "totalTimeMonotone (heap s1) (heap s2)"
    by (simp add: s2_def mono_checkAndHandleProjectChange)
  have m3: "totalTimeMonotone (heap s2) (heap s3)"
    by (simp add: s3_def mono_checkAndHandleIdleSessionEnd)
  have m4: "totalTimeMonotone (heap s3) (heap s4)"
    by (simp add: s4_def mono_accumulateActiveTime)
  have m5: "totalTimeMonotone (heap s4) (heap (tick sd env s))"
    by (simp add: t mono_startOrResumeSession)
  from m1 m2 m3 m4 m5 show ?thesis by (blast intro: mono_trans)
qed

lemma mono_onActivity: "totalTimeMonotone (heap s) (heap (onActivity sd env event s))"
  by (auto simp: onActivity_def Let_def mono_endCurrentSessionBegin mono_startOrResumeSession
      intro!: mono_update split: option.split)

lemma mono_recordActivity: "totalTimeMonotone (heap s) (heap (recordActivity sd env event s))"
  using mono_onActivity [of "s\<lparr>monitor := (monitor s)\<lparr>lastActivity_m := timestamp event\<rparr>\<rparr>" sd env event]
  by (simp add: recordActivity_def)

lemma mono_checkSleepWake: "totalTimeMonotone (heap s) (heap (checkSleepWake sd env s))"
  by (auto simp: checkSleepWake_eq completeSaves_eq sleepWakeEvents_def Let_def
        mono_recordActivity
      intro: mono_trans [OF mono_recordActivity mono_recordActivity])

lemma mono_onWindowStateChangeEnhanced:
  "totalTimeMonotone (heap s) (heap (onWindowStateChangeEnhanced sd env focused s))"
proof -
  define s0 where "s0 = s\<lparr>monitor := (monitor s)\<lparr>isWindowFocused := focused\<rparr>\<rparr>"
  have h0: "heap s0 = heap s" by (simp add: s0_def)
  show ?thesis
    unfolding onWindowStateChangeEnhanced_def Let_def s0_def [symmetric]
    using mono_recordActivity [of s0] mono_trans [OF mono_recordActivity mono_recordActivity, of s0]
    by (auto simp: h0)
qed

lemma mono_step: "\<not> isStart op \<Longrightarrow> totalTimeMonotone (heap s) (heap (step sd s (env, op)))"
  by (cases op)
     (auto simp: mono_tick mono_recordActivity mono_checkSleepWake mono_onWindowStateChangeEnhanced
        stop_def save_def mono_endCurrentSession pause_def resume_def reset_def Let_def
        intro!: mono_update split: option.split)

lemma mono_nonNegative:
  assumes "totalTimeMonotone h h'" and "nonNegativeTotals h"
  shows "nonNegativeTotals h'"
proof -
  have "0 \<le> totalTime (h' ! x)" if "x < length h'" for x
  proof (cases "x < length h")
    case True
    with assms have "0 \<le> totalTime (h ! x)" and "totalTime (h ! x) \<le> totalTime (h' ! x)"
      by (simp_all add: totalTimeMonotone_def nonNegativeTotals_def list_all_length)
    then show ?thesis by simp
  next
    case False
    with that assms show ?thesis by (simp add: totalTimeMonotone_def)
  qed
  then show ?thesis by (simp add: nonNegativeTotals_def list_all_length)
qed

text \<open>
  C7. For every time helper \<open>sd\<close>: across a tick, an activity event, \<open>endCurrentSession\<close>
  and \<open>splitSessionAtMidnight\<close>, and across every step of the tracker other than loading
  data in \<open>start\<close>, no session's \<open>totalTime\<close> decreases and a new session starts with a
  non-negative \<open>totalTime\<close> (a computed delta that is not positive adds nothing); hence
  sessions with non-negative \<open>totalTime\<close> keep it non-negative.
\<close>

theorem totalTime_never_decreases:
  "totalTimeMonotone (heap s) (heap (tick sd env s))
   \<and> totalTimeMonotone (heap s) (heap (onActivity sd env event s))
   \<and> totalTimeMonotone (heap s) (heap (endCurrentSession sd env endTimeArg s))
   \<and> totalTimeMonotone (heap s) (heap (splitSessionAtMidnight env s))
   \<and> (\<not> isStart op \<longrightarrow>
        totalTimeMonotone (heap s) (heap (step sd s (env, op)))
        \<and> (nonNegativeTotals (heap s) \<longrightarrow> nonNegativeTotals (heap (step sd s (env, op)))))"
  using mono_tick mono_onActivity mono_endCurrentSession mono_splitSessionAtMidnight
    mono_step mono_nonNegative
  by blast

theorem totalTime_never_decreases_witness:
  "\<not> isStart Tick
   \<and> nonNegativeTotals (heap (startedTracker defaultConfig))
   \<and> totalTimeMonotone (heap (startedTracker defaultConfig))
        (heap (step safeTimeDifference (startedTracker defaultConfig) (envAt 1000, Tick)))
   \<and> nonNegativeTotals (heap (step safeTimeDifference (startedTracker defaultConfig) (envAt 1000, Tick)))
   \<and> map totalTime (heap (step safeTimeDifference (startedTracker defaultConfig) (envAt 1000, Tick)))
       = [1000]"
proof -
  have op: "\<not> isStart Tick" by simp
  have nn: "nonNegativeTotals (heap (startedTracker defaultConfig))"
    by (simp add: nonNegativeTotals_def startedTracker_def run_simps)
  have val: "map totalTime (heap (step safeTimeDifference (startedTracker defaultConfig) (envAt 1000, Tick)))
       = [1000]"
    by code_simp
  from totalTime_never_decreases
         [where s = "startedTracker defaultConfig" and sd = safeTimeDifference
            and env = "envAt 1000" and op = Tick] op nn
  have "totalTimeMonotone (heap (startedTracker defaultConfig))
          (heap (step safeTimeDifference (startedTracker defaultConfig) (envAt 1000, Tick)))
        \<and> nonNegativeTotals (heap (step safeTimeDifference (startedTracker defaultConfig) (envAt 1000, Tick)))"
    by blast
  with op nn val show ?thesis by blast
qed

subsection \<open>Open sessions\<close>





lemma sessions_recalculateProjectStats [simp]:
  "sessions (recalculateProjectStats h ps) = sessions ps"
  by (simp add: recalculateProjectStats_def Let_def split: list.split)



















lemma inv_lastSessionDay [simp]:
  "openOnlyCurrent (s\<lparr>lastSessionDay := d\<rparr>) = openOnlyCurrent s"
  by (simp add: openOnlyCurrent_def)

lemma inv_monitor [simp]: "openOnlyCurrent (s\<lparr>monitor := m\<rparr>) = openOnlyCurrent s"
  by (simp add: openOnlyCurrent_def)

lemma inv_config [simp]: "openOnlyCurrent (s\<lparr>config := m\<rparr>) = openOnlyCurrent s"
  by (simp add: openOnlyCurrent_def)

lemma inv_trackSessionDay [simp]:
  "openOnlyCurrent (trackSessionDay env s) = openOnlyCurrent s"
  by (simp add: trackSessionDay_def split: option.split)

lemma inv_save [simp]: "openOnlyCurrent (save env s) = openOnlyCurrent s"
  by (simp add: openOnlyCurrent_def save_def)





























subsection \<open>Splitting, loading and exporting on the regular paths\<close>

text \<open>
  A split on the day right after the session's start day ends the session at the last
  millisecond of its start day, marks it inactive and installs a new current session for the
  same project with \<open>startTime = now\<close> and zero \<open>totalTime\<close> and counters. When the primary
  file is absent or readable, \<open>load\<close> returns data recorded for the active workspace. The
  export holds one array element per project.
\<close>

lemma split_on_next_day_ends_start_day:
  assumes cur: "currentSession s = Some a" and lt: "a < length (heap s)"
    and next_day: "localDay (tzOffset env) (now env)
                     = localDay (tzOffset env) (startTime (heap s ! a)) + 1"
  shows "endTime (heap (splitSessionAtMidnight env s) ! a)
           = Some (startOfLocalDay (tzOffset env) (startTime (heap s ! a)) + 86400000 - 1)"
    and "isActive (heap (splitSessionAtMidnight env s) ! a) = False"
    and "currentSession (splitSessionAtMidnight env s) = Some (length (heap s))"
    and "heap (splitSessionAtMidnight env s) ! length (heap s)
           = \<lparr>sessionId = randomId env (length (heap s)),
              projectName = projectName (heap s ! a), projectPath = projectPath (heap s ! a),
              startTime = now env, endTime = None, totalTime = 0, isActive = True,
              lastActivity = now env, lastActiveTime = now env, textChanges = 0,
              cursorMovements = 0\<rparr>"
proof -
  have day: "startOfLocalDay (tzOffset env) (now env)
               = startOfLocalDay (tzOffset env) (startTime (heap s ! a)) + 86400000"
    by (simp add: startOfLocalDay_def next_day algebra_simps)
  show "endTime (heap (splitSessionAtMidnight env s) ! a)
           = Some (startOfLocalDay (tzOffset env) (startTime (heap s ! a)) + 86400000 - 1)"
    using cur lt
    by (simp add: splitSessionAtMidnight_def Let_def startNew_def save_def nth_append day)
  show "isActive (heap (splitSessionAtMidnight env s) ! a) = False"
    using cur lt
    by (simp add: splitSessionAtMidnight_def Let_def startNew_def save_def nth_append)
  show "currentSession (splitSessionAtMidnight env s) = Some (length (heap s))"
    using cur by (simp add: splitSessionAtMidnight_def Let_def startNew_def save_def)
  show "heap (splitSessionAtMidnight env s) ! length (heap s)
           = \<lparr>sessionId = randomId env (length (heap s)),
              projectName = projectName (heap s ! a), projectPath = projectPath (heap s ! a),
              startTime = now env, endTime = None, totalTime = 0, isActive = True,
              lastActivity = now env, lastActiveTime = now env, textChanges = 0,
              cursorMovements = 0\<rparr>"
    using cur
    by (simp add: splitSessionAtMidnight_def Let_def startNew_def save_def nth_append
        newSession_def generateSessionId_def)
qed

lemma load_primary_checks_workspace:
  assumes "workspaceFolder env = Some (name, path)" and "primary \<noteq> Some Unreadable"
  shows "workspacePath (load env primary backup) = Some path"
proof (cases primary)
  case None
  then show ?thesis using assms by (simp add: load_def createDefaultData_def)
next
  case (Some f)
  with assms obtain d where "f = Parsed d" by (cases f) auto
  with Some assms show ?thesis
    by (simp add: load_def Let_def createDefaultData_def split: option.split)
qed

lemma exportData_project_count:
  "exportData env True s = Some x \<Longrightarrow> length (projects_x x) = length (projects s)"
  by (auto simp: exportData_def)

lemma tracked_recalculateProject [simp]:
  "totalTimeTracked (recalculateProject path s) = totalTimeTracked s"
  by (simp add: recalculateProject_def split: option.split)

lemma tracked_endCurrentSession [simp]:
  "totalTimeTracked (endCurrentSession sd env e s) = totalTimeTracked s"
  by (simp add: endCurrentSession_whole Let_def save_def split: option.split)

lemma tracked_endCurrentSessionBegin [simp]:
  "totalTimeTracked (endCurrentSessionBegin sd env e s) = totalTimeTracked s"
  by (simp add: endCurrentSessionBegin_frame)

lemma tracked_startOrResumeSession [simp]:
  "totalTimeTracked (startOrResumeSession env s) = totalTimeTracked s"
  by (simp add: startOrResumeSession_def trackSessionDay_def resumeExisting_def startNew_def
      addSessionToProject_def Let_def split: option.split)

lemma tracked_splitSessionAtMidnight [simp]:
  "totalTimeTracked (splitSessionAtMidnight env s) = totalTimeTracked s"
  by (simp add: splitSessionAtMidnight_def startNew_def addSessionToProject_def save_def Let_def
      split: option.split)

lemma tracked_checkAndHandleMidnightCrossing [simp]:
  "totalTimeTracked (checkAndHandleMidnightCrossing env s) = totalTimeTracked s"
  by (simp add: checkAndHandleMidnightCrossing_def Let_def split: option.split)

lemma tracked_checkAndHandleIdleSessionEnd [simp]:
  "totalTimeTracked (checkAndHandleIdleSessionEnd sd env s) = totalTimeTracked s"
  by (simp add: checkAndHandleIdleSessionEnd_def Let_def split: option.split)

lemma tracked_checkAndHandleProjectChange [simp]:
  "totalTimeTracked (checkAndHandleProjectChange sd env s) = totalTimeTracked s"
  by (simp add: checkAndHandleProjectChange_def split: option.split)

lemma tracked_accumulateActiveTime [simp]:
  "totalTimeTracked (accumulateActiveTime sd env s) = totalTimeTracked s"
  by (simp add: accumulateActiveTime_def Let_def split: option.split)

lemma tracked_tick [simp]: "totalTimeTracked (tick sd env s) = totalTimeTracked s"
  by (simp add: tick_def Let_def)

lemma tracked_onActivity [simp]:
  "totalTimeTracked (onActivity sd env event s) = totalTimeTracked s"
  by (simp add: onActivity_def Let_def split: option.split)

lemma tracked_recordActivity [simp]:
  "totalTimeTracked (recordActivity sd env event s) = totalTimeTracked s"
  by (simp add: recordActivity_def)

lemma tracked_checkSleepWake [simp]:
  "totalTimeTracked (checkSleepWake sd env s) = totalTimeTracked s"
proof -
  have "totalTimeTracked (foldl (\<lambda>st event. recordActivity sd env event st) s evs)
          = totalTimeTracked s" for evs
    by (induction evs arbitrary: s) simp_all
  then show ?thesis by (simp add: checkSleepWake_eq completeSaves_eq Let_def)
qed

lemma tracked_onWindowStateChangeEnhanced [simp]:
  "totalTimeTracked (onWindowStateChangeEnhanced sd env focused s) = totalTimeTracked s"
  by (simp add: onWindowStateChangeEnhanced_def Let_def)

text \<open>
  No operation of the tracker writes \<open>totalTimeTracked\<close>: a step other than a \<open>start\<close>
  (which installs the loaded data) leaves it as it is.
\<close>

lemma totalTimeTracked_unchanged:
  "\<not> isStart op \<Longrightarrow> totalTimeTracked (step sd s (env, op)) = totalTimeTracked s"
  by (cases op)
     (simp_all add: stop_def save_def pause_def resume_def reset_def Let_def split: option.split)

subsection \<open>Runs on which the code departs from the specification\<close>

text \<open>
  C1 (the code departs from the claim). In \<open>wakeRun\<close> the keystroke at 100000 ms starts a
  session; the heartbeat check at 100001 ms finds the last heartbeat at 0, synthesizes a
  sleep event stamped 10000 and \<open>endCurrentSession\<close> ends the session with that time stamp.
  The ended session has \<open>startTime = 100000\<close>, \<open>endTime = 10000\<close> and \<open>totalTime = 0\<close>: its
  \<open>totalTime\<close> is not bounded by \<open>endTime - startTime\<close>, which is negative. (The time helper
  is not called on this run: the monitor reports a sleep gap, hence not active.)
\<close>

theorem session_ended_before_its_start:
  "startTime (heap wakeRun ! 0) = 100000
   \<and> endTime (heap wakeRun ! 0) = Some 10000
   \<and> totalTime (heap wakeRun ! 0) = 0
   \<and> \<not> totalTime (heap wakeRun ! 0) \<le> 10000 - startTime (heap wakeRun ! 0)
   \<and> projectSessions ''/home/u/a.ts'' wakeRun = [0, 1]"
  by code_simp

text \<open>
  C2 (the code departs from the claim). In \<open>weekendRun\<close> the session starts on local day 0
  (at 36000000 ms) and the tick that detects the change of day runs on local day 3. The
  split sets the \<open>endTime\<close> of the session to 259199999, the last millisecond of day 2 (the
  day before the tick), not to 86399999, the last millisecond of the session's start day:
  the closed session spans three calendar days. The same happens in \<open>pausedWeekendRun\<close>.
  The rest of the claim holds on both runs: the old session has \<open>isActive = false\<close>, and the
  new current session (address 1) is for the same project, with \<open>startTime\<close> the time of the
  tick and zero \<open>totalTime\<close> and counters.
\<close>

theorem split_ends_at_yesterday_not_start_day:
  "startTime (heap weekendRun ! 0) = 36000000
   \<and> localDay 0 (startTime (heap weekendRun ! 0)) = 0
   \<and> localDay 0 295200500 = 3
   \<and> startOfLocalDay 0 36000000 + 86400000 - 1 = 86399999
   \<and> endTime (heap weekendRun ! 0) = Some 259199999
   \<and> isActive (heap weekendRun ! 0) = False
   \<and> currentSession weekendRun = Some 1
   \<and> heap weekendRun ! 1 =
        \<lparr>sessionId = ids 1, projectName = ''proj'', projectPath = ''/proj'',
         startTime = 295200500, endTime = None, totalTime = 0, isActive = True,
         lastActivity = 295200500, lastActiveTime = 295200500, textChanges = 0,
         cursorMovements = 0\<rparr>
   \<and> endTime (heap pausedWeekendRun ! 0) = Some 259199999
   \<and> startTime (heap pausedWeekendRun ! 0) = 36000000
   \<and> currentSession pausedWeekendRun = Some 1"
  by code_simp

text \<open>
  C8 (the code departs from the claim). \<open>exportData\<close> writes one array element per project,
  but its grand total is the field \<open>totalTimeTracked\<close>, which no operation of the tracker
  updates. In \<open>midnightRun\<close> the split credits 499 ms to the completed session, the
  project's \<open>totalTime\<close> is 499, and the exported grand total is 0.
\<close>

theorem export_total_is_stale_field:
  "map_option (\<lambda>x. length (projects_x x)) (exportData (envAt 86401000) True midnightRun)
     = Some (length (projects midnightRun))
   \<and> completedTotal midnightRun = 499
   \<and> map (\<lambda>entry. totalTime_p (snd entry)) (projects midnightRun) = [499]
   \<and> map_option totalTimeTracked_x (exportData (envAt 86401000) True midnightRun) = Some 0"
  by code_simp

text \<open>
  C9 (the code departs from the claim). \<open>recalculateProjectStats\<close> counts the distinct
  \<open>formatDate\<close> strings of the completed sessions, and \<open>formatDate\<close> is the UTC date
  (\<open>toISOString\<close>), not the calendar date of local time that the tracker uses wherever else
  it tells days apart. In \<open>lateNightRun\<close>, two hours east of UTC, the tick after local
  midnight splits the session: the first session starts on local day 0 and ends one
  millisecond before local midnight, the second starts on local day 1 and is ended by
  \<open>stop\<close>. Both are completed and both start on the same UTC date, so \<open>activeDays\<close> is 1
  where the completed sessions have 2 distinct calendar start dates. The other three
  fields are as the claim says: \<open>totalTime\<close> is the sum 1499 of the two \<open>totalTime\<close>s,
  \<open>averageSessionDuration\<close> is that sum divided by 2, and \<open>lastActivity\<close> is the later
  \<open>lastActivity\<close>.
\<close>

theorem activeDays_counts_utc_dates:
  "projects lateNightRun \<noteq> []
   \<and> fst (hd (projects lateNightRun)) = ''/proj''
   \<and> tl (projects lateNightRun) = []
   \<and> sessions (snd (hd (projects lateNightRun))) = [0, 1]
   \<and> map startTime (completedOf (heap lateNightRun) (snd (hd (projects lateNightRun))))
       = [79199500, 79200500]
   \<and> map endTime (completedOf (heap lateNightRun) (snd (hd (projects lateNightRun))))
       = [Some 79199999, Some 79201500]
   \<and> map totalTime (completedOf (heap lateNightRun) (snd (hd (projects lateNightRun))))
       = [499, 1000]
   \<and> map (\<lambda>c. localDay 7200000 (startTime c))
         (completedOf (heap lateNightRun) (snd (hd (projects lateNightRun)))) = [0, 1]
   \<and> map (\<lambda>c. formatDate (startTime c))
         (completedOf (heap lateNightRun) (snd (hd (projects lateNightRun)))) = [0, 0]
   \<and> activeDays_spec 7200000
         (completedOf (heap lateNightRun) (snd (hd (projects lateNightRun)))) = 2
   \<and> activeDays (snd (hd (projects lateNightRun))) = 1
   \<and> totalTime_p (snd (hd (projects lateNightRun))) = 1499
   \<and> averageSessionDuration (snd (hd (projects lateNightRun))) = 1499 / 2
   \<and> lastActivity_p (snd (hd (projects lateNightRun))) = 79200500"
  by code_simp

text \<open>
  The recomputation reads the project's list only. \<open>deserializeData\<close> builds the current
  session as an object of its own, apart from the object of the same session in the
  project's list, and when \<open>startOrResumeSession\<close> finds no project that object stays
  current. In \<open>restoredRun\<close> it is the session that \<open>stop\<close> ends: it is completed, with the
  tracked second, but it is not in the list of its project, whose own copy stays without
  \<open>endTime\<close> and whose \<open>totalTime\<close> stays 0.
\<close>

lemma restored_session_ended_outside_project_list:
  "length (heap restoredRun) = 2
   \<and> map fst (projects restoredRun) = [''/proj'']
   \<and> projectSessions ''/proj'' restoredRun = [0]
   \<and> endTime (heap restoredRun ! 0) = None
   \<and> sessionId (heap restoredRun ! 1) = sessionId (heap restoredRun ! 0)
   \<and> projectPath (heap restoredRun ! 1) = ''/proj''
   \<and> endTime (heap restoredRun ! 1) = Some 32000
   \<and> 1000 \<le> totalTime (heap restoredRun ! 1)
   \<and> currentSession restoredRun = None
   \<and> map (\<lambda>entry. totalTime_p (snd entry)) (projects restoredRun) = [0]"
  by code_simp

text \<open>
  C10 (the code departs from the claim). With the workspace \<open>/proj\<close> open, \<open>load\<close> rejects a
  primary file recorded for \<open>/other\<close> and returns the default data; but when the primary
  file cannot be read it returns the backup's data without the check: the data recorded
  for \<open>/other\<close> is returned. When both files fail, the default data is returned.
\<close>

theorem backup_skips_workspace_check:
  "workspaceFolder (envAt 1000) = Some (''proj'', ''/proj'')
   \<and> load (envAt 1000) (Some (Parsed foreignBackup)) None = createDefaultData (envAt 1000)
   \<and> workspacePath (load (envAt 1000) (Some (Parsed foreignBackup)) None) = Some ''/proj''
   \<and> workspacePath (load (envAt 1000) (Some Unreadable) (Some (Parsed foreignBackup)))
       = Some ''/other''
   \<and> load (envAt 1000) (Some Unreadable) (Some Unreadable) = createDefaultData (envAt 1000)
   \<and> load (envAt 1000) (Some Unreadable) None = createDefaultData (envAt 1000)"
  by (simp add: load_def foreignBackup_def deserializeData_def truthy_def envAt_def
      createDefaultData_def)

end
